theory Spec2Isabelle
  imports Main "HOL-Library.Word"
begin

section \<open>JavaScript strings\<close>

text \<open>
  A JavaScript string is a sequence of UTF-16 code units; \<open>length\<close>, \<open>substring\<close>,
  \<open>trim\<close>, \<open>includes\<close> and the regular expression of \<open>stripHtmlTags\<close> (which has no
  \<open>u\<close> flag) all work on code units.
\<close>

type_synonym code_unit = "16 word"
type_synonym js_string = "code_unit list"

text \<open>A string literal of the source (ASCII), as code units.\<close>

definition lit :: "string \<Rightarrow> js_string" where
  "lit s = map (\<lambda>c. word_of_nat (of_char c)) s"

text \<open>
  \<open>String.prototype.trim\<close> removes the WhiteSpace and LineTerminator code points of
  ECMAScript from both ends: TAB, LF, VT, FF, CR, SP, NBSP, the other space separators of
  Unicode, LS, PS and the byte order mark.
\<close>

definition isWhiteSpace :: "code_unit \<Rightarrow> bool" where
  "isWhiteSpace c \<longleftrightarrow>
     c = 0x0009 \<or> c = 0x000A \<or> c = 0x000B \<or> c = 0x000C \<or> c = 0x000D \<or> c = 0x0020 \<or>
     c = 0x00A0 \<or> c = 0x1680 \<or> (0x2000 \<le> c \<and> c \<le> 0x200A) \<or>
     c = 0x2028 \<or> c = 0x2029 \<or> c = 0x202F \<or> c = 0x205F \<or> c = 0x3000 \<or> c = 0xFEFF"

definition trim :: "js_string \<Rightarrow> js_string" where
  "trim s = rev (dropWhile isWhiteSpace (rev (dropWhile isWhiteSpace s)))"

text \<open>\<open>s.includes(sub)\<close>: \<open>sub\<close> occurs in \<open>s\<close> as a contiguous run of code units.\<close>

fun str_includes :: "js_string \<Rightarrow> js_string \<Rightarrow> bool" where
  "str_includes [] sub = (sub = [])"
| "str_includes (c # cs) sub = (take (length sub) (c # cs) = sub \<or> str_includes cs sub)"

text \<open>\<open>s.substring(0, n)\<close>: the first \<open>n\<close> code units, all of \<open>s\<close> when it is shorter.\<close>

definition substring0 :: "js_string \<Rightarrow> nat \<Rightarrow> js_string" where
  "substring0 s n = take n s"

text \<open>The decimal digits of a non-negative integer, as a template literal prints it.\<close>

function number_toString :: "nat \<Rightarrow> js_string" where
  "number_toString n =
     (if n < 10 then [word_of_nat (48 + n)]
      else number_toString (n div 10) @ [word_of_nat (48 + n mod 10)])"
  by pat_completeness auto
termination
  by (relation "measure id") auto

declare number_toString.simps [simp del]

text \<open>
  A template literal prints a string as it is and the value \<open>undefined\<close> as the word
  "undefined".
\<close>

definition interpolate :: "js_string option \<Rightarrow> js_string" where
  "interpolate v = (case v of None \<Rightarrow> lit ''undefined'' | Some s \<Rightarrow> s)"

text \<open>
  \<open>String.prototype.toLowerCase\<close> is the Unicode case mapping of the runtime. The tools
  take it as a parameter, so every theorem below holds for the mapping of any runtime.
  \<open>ascii_toLowerCase\<close> is that mapping on strings of ASCII code units, and instantiates
  the parameter at concrete inputs.
\<close>

definition ascii_toLowerCase :: "js_string \<Rightarrow> js_string" where
  "ascii_toLowerCase s = map (\<lambda>c. if 0x41 \<le> c \<and> c \<le> 0x5A then c + 0x20 else c) s"

section \<open>Promises, the language model and observable effects\<close>

text \<open>
  An awaited promise either resolves with a value or rejects; the \<open>catch\<close> blocks of both
  tools tell a thrown \<open>Error\<close> (whose \<open>message\<close> they print) from any other thrown value.
\<close>

datatype 'a settled = Resolved 'a | RejectedError js_string | RejectedOther

text \<open>
  What \<open>generateText\<close> resolves with: a bare string, or an object whose \<open>text\<close> and
  \<open>finishReason\<close> properties may each be \<open>undefined\<close> (\<open>None\<close>). Reading either property
  of a bare string gives \<open>undefined\<close>.
\<close>

datatype generation_result =
  PlainString js_string
| Structured "js_string option" "js_string option"

fun text_of :: "generation_result \<Rightarrow> js_string option" where
  "text_of (PlainString s) = None"
| "text_of (Structured t f) = t"

fun finishReason_of :: "generation_result \<Rightarrow> js_string option" where
  "finishReason_of (PlainString s) = None"
| "finishReason_of (Structured t f) = f"

text \<open>The outbound calls of a run, in order, each with its argument.\<close>

datatype effect = Fetch js_string | GenerateText js_string

section \<open>The Translate-Text tool (src/lib/ai/tools/translate-text.ts)\<close>

datatype translate_result = TranslatedText js_string | TranslateError js_string

fun is_TranslatedText :: "translate_result \<Rightarrow> bool" where
  "is_TranslatedText (TranslatedText t) = True"
| "is_TranslatedText (TranslateError e) = False"

definition translate_prompt :: "js_string \<Rightarrow> js_string \<Rightarrow> js_string" where
  "translate_prompt text targetLanguage =
     lit ''Translate the following text to '' @ targetLanguage @ lit '': '' @ [0x22] @ text @ [0x22]"

definition heuristic_error :: "js_string \<Rightarrow> js_string" where
  "heuristic_error targetLanguage =
     lit ''Translation to '' @ targetLanguage @
     lit '' might have failed or returned original text. The language might be unsupported or the text too short/ambiguous.''"

definition invalid_translation_error :: "js_string option \<Rightarrow> js_string" where
  "invalid_translation_error finishReason =
     lit ''Translation failed. AI model did not provide a valid translation. Reason: '' @
     interpolate finishReason"

text \<open>
  The guard of line 23, \<open>finishReason === 'stop' && translatedTextResponse &&
  translatedTextResponse.trim().length > 0\<close>: an \<open>undefined\<close> or empty response is falsy.
\<close>

definition valid_completion :: "js_string option \<Rightarrow> js_string option \<Rightarrow> bool" where
  "valid_completion finishReason translatedTextResponse =
     (finishReason = Some (lit ''stop'') \<and>
      (case translatedTextResponse of
         None \<Rightarrow> False
       | Some t \<Rightarrow> t \<noteq> [] \<and> 0 < length (trim t)))"

text \<open>
  \<open>execute\<close>, with the runtime's \<open>toLowerCase\<close> and the model call as parameters. It
  returns the tool result and the outbound calls made. (\<open>console.error\<close> in the
  \<open>catch\<close> block writes a log line only and is left out.)
\<close>

definition translateTextTool_execute ::
  "(js_string \<Rightarrow> js_string) \<Rightarrow> (js_string \<Rightarrow> generation_result settled) \<Rightarrow>
   js_string \<Rightarrow> js_string \<Rightarrow> translate_result \<times> effect list" where
  "translateTextTool_execute toLowerCase generateText text targetLanguage =
     (let prompt = translate_prompt text targetLanguage in
      (case generateText prompt of
         Resolved r \<Rightarrow>
           (let translatedTextResponse = text_of r; finishReason = finishReason_of r in
            if valid_completion finishReason translatedTextResponse then
              (case translatedTextResponse of
                 Some t \<Rightarrow>
                   if toLowerCase (trim t) = toLowerCase (trim text) \<and> targetLanguage \<noteq> lit ''en''
                   then TranslateError (heuristic_error targetLanguage)
                   else TranslatedText (trim t)
               | None \<Rightarrow> TranslateError (invalid_translation_error finishReason))
            else TranslateError (invalid_translation_error finishReason))
       | RejectedError message \<Rightarrow>
           TranslateError (lit ''Translation failed due to an internal error: '' @ message)
       | RejectedOther \<Rightarrow>
           TranslateError (lit ''Translation failed due to an internal error: An unknown error occurred''),
       [GenerateText prompt]))"

subsection \<open>The input schema\<close>

text \<open>
  \<open>parameters\<close> is \<open>z.object({text: z.string().min(1), targetLanguage: z.string().min(2)})\<close>.
  A property of the raw argument object is missing, a string, or a value of another type.
  \<open>z.string()\<close> reports \<open>invalid_type\<close> for anything but a string and \<open>.min(n)\<close> reports
  \<open>too_small\<close> when the string has fewer than \<open>n\<close> code units; the object schema
  collects the issues of its properties in declaration order and succeeds when there are
  none.
\<close>

datatype js_value = Undefined | Str js_string | NonString

record raw_args =
  arg_text :: js_value
  arg_targetLanguage :: js_value

text \<open>An issue, with the property it is about (its path) and, for \<open>too_small\<close>, the minimum.\<close>

datatype zod_issue = Invalid_type string | Too_small string nat

text \<open>The message of a \<open>too_small\<close> issue of a string.\<close>

definition too_small_message :: "nat \<Rightarrow> js_string" where
  "too_small_message n =
     lit ''String must contain at least '' @ number_toString n @ lit '' character(s)''"

definition z_string_min :: "nat \<Rightarrow> string \<Rightarrow> js_value \<Rightarrow> zod_issue list" where
  "z_string_min n path v =
     (case v of
        Str s \<Rightarrow> if length s < n then [Too_small path n] else []
      | Undefined \<Rightarrow> [Invalid_type path]
      | NonString \<Rightarrow> [Invalid_type path])"

definition translateTextTool_parameters_safeParse ::
  "raw_args \<Rightarrow> zod_issue list + (js_string \<times> js_string)" where
  "translateTextTool_parameters_safeParse a =
     (let issues = z_string_min 1 ''text'' (arg_text a) @
                   z_string_min 2 ''targetLanguage'' (arg_targetLanguage a)
      in (case (issues, arg_text a, arg_targetLanguage a) of
            ([], Str text, Str targetLanguage) \<Rightarrow> Inr (text, targetLanguage)
          | _ \<Rightarrow> Inl issues))"

text \<open>
  A tool call as the SDK's \<open>tool\<close> wrapper runs it: the arguments are parsed against
  \<open>parameters\<close> first, and \<open>execute\<close> runs on the parsed value only.
\<close>

datatype tool_call = InvalidArguments "zod_issue list" | Executed translate_result

definition translateTextTool_call ::
  "(js_string \<Rightarrow> js_string) \<Rightarrow> (js_string \<Rightarrow> generation_result settled) \<Rightarrow>
   raw_args \<Rightarrow> tool_call \<times> effect list" where
  "translateTextTool_call toLowerCase generateText a =
     (case translateTextTool_parameters_safeParse a of
        Inl issues \<Rightarrow> (InvalidArguments issues, [])
      | Inr (text, targetLanguage) \<Rightarrow>
          (Executed (fst (translateTextTool_execute toLowerCase generateText text targetLanguage)),
           snd (translateTextTool_execute toLowerCase generateText text targetLanguage)))"

section \<open>The Summarize-URL tool (summarizeUrl)\<close>

text \<open>
  \<open>stripHtmlTags\<close> is \<open>html.replace(/<[^>]*>?/gm, '')\<close>: from the left, each \<open><\<close>
  (0x3C) starts a match that takes every following code unit other than \<open>>\<close> (0x3E), then
  the \<open>>\<close> when there is one (at the end of the string there is none); the match is
  deleted and the search goes on behind it.
\<close>

function stripHtmlTags :: "js_string \<Rightarrow> js_string" where
  "stripHtmlTags [] = []"
| "stripHtmlTags (c # cs) =
     (if c = 0x3C then stripHtmlTags (drop 1 (dropWhile (\<lambda>x. x \<noteq> 0x3E) cs))
      else c # stripHtmlTags cs)"
  by pat_completeness auto
termination
  by (relation "measure length")
     (auto simp: less_Suc_eq_le intro: le_trans [OF diff_le_self length_dropWhile_le])

text \<open>
  What \<open>execute\<close> reads of the fetch response: \<open>ok\<close>, \<open>status\<close> (an unsigned short in
  the Fetch standard), the promise of \<open>response.text()\<close> and
  \<open>response.headers.get('content-type')\<close> (\<open>None\<close> is \<open>null\<close>).
\<close>

record response =
  ok :: bool
  status :: "16 word"
  body :: "js_string settled"
  content_type :: "js_string option"

text \<open>The declared result type \<open>{ summary?: string; error?: string }\<close>.\<close>

record tool_result =
  summary :: "js_string option"
  error :: "js_string option"

definition error_result :: "js_string \<Rightarrow> tool_result" where
  "error_result e = \<lparr>summary = None, error = Some e\<rparr>"

definition http_status_error :: "16 word \<Rightarrow> js_string" where
  "http_status_error code =
     lit ''Failed to fetch page: HTTP status '' @ number_toString (unat code)"

definition content_type_error :: "js_string \<Rightarrow> js_string" where
  "content_type_error contentType =
     lit ''Content is not HTML (type: '' @ contentType @ lit ''). Cannot summarize.''"

definition no_text_error :: js_string where
  "no_text_error = lit ''No text content found on the page to summarize.''"

definition summarize_prompt :: "js_string \<Rightarrow> js_string" where
  "summarize_prompt textContent =
     lit ''Summarize the following text:'' @ [0x0A, 0x0A] @ substring0 textContent 4000"

text \<open>
  The test of line 36, \<open>contentType && !contentType.includes('text/html')\<close>: \<open>null\<close> and the
  empty string are falsy.
\<close>

definition not_html :: "js_string option \<Rightarrow> bool" where
  "not_html contentType =
     (case contentType of
        None \<Rightarrow> False
      | Some c \<Rightarrow> c \<noteq> [] \<and> \<not> str_includes c (lit ''text/html''))"

text \<open>Steps 3 and 4 of \<open>execute\<close> (lines 47 to 72), on the page's HTML.\<close>

definition summarize_html ::
  "(js_string \<Rightarrow> generation_result settled) \<Rightarrow> js_string \<Rightarrow> tool_result \<times> effect list" where
  "summarize_html generateText htmlContent =
     (let textContent = stripHtmlTags htmlContent in
      if trim textContent = [] then (error_result no_text_error, [])
      else
        (let prompt = summarize_prompt textContent in
         (case generateText prompt of
            Resolved generationResult \<Rightarrow>
              \<lparr>summary =
                 (case generationResult of
                    PlainString s \<Rightarrow> Some s
                  | Structured t f \<Rightarrow> t),
               error = None\<rparr>
          | RejectedError message \<Rightarrow> error_result (lit ''AI summarization failed: '' @ message)
          | RejectedOther \<Rightarrow> error_result (lit ''Unknown error during AI summarization.''),
          [GenerateText prompt])))"

text \<open>
  \<open>execute\<close> (lines 15 to 73), with \<open>fetch\<close> and the model call as parameters. It returns
  the tool result and the outbound calls made.
\<close>

definition summarizeUrl_execute ::
  "(js_string \<Rightarrow> response settled) \<Rightarrow> (js_string \<Rightarrow> generation_result settled) \<Rightarrow>
   js_string \<Rightarrow> tool_result \<times> effect list" where
  "summarizeUrl_execute fetch generateText url =
     (case fetch url of
        Resolved r \<Rightarrow>
          if \<not> ok r then (error_result (http_status_error (status r)), [Fetch url])
          else
            (case body r of
               Resolved htmlContent \<Rightarrow>
                 if not_html (content_type r)
                 then (error_result (content_type_error (interpolate (content_type r))), [Fetch url])
                 else (fst (summarize_html generateText htmlContent),
                       Fetch url # snd (summarize_html generateText htmlContent))
             | RejectedError message \<Rightarrow>
                 (error_result (lit ''Network error when fetching the page: '' @ message), [Fetch url])
             | RejectedOther \<Rightarrow>
                 (error_result (lit ''Unknown network error when fetching the page.''), [Fetch url]))
      | RejectedError message \<Rightarrow>
          (error_result (lit ''Network error when fetching the page: '' @ message), [Fetch url])
      | RejectedOther \<Rightarrow>
          (error_result (lit ''Unknown network error when fetching the page.''), [Fetch url]))"

text \<open>A field of the result is populated when it is defined (not \<open>undefined\<close>).\<close>

definition exactly_one_populated :: "tool_result \<Rightarrow> bool" where
  "exactly_one_populated res \<longleftrightarrow> (summary res \<noteq> None) \<noteq> (error res \<noteq> None)"

text \<open>
  The model outcome that the declared type of \<open>generateText\<close> excludes: an object whose
  \<open>text\<close> property is \<open>undefined\<close>.
\<close>

definition text_absent :: "generation_result settled \<Rightarrow> bool" where
  "text_absent outcome =
     (case outcome of
        Resolved (Structured None f) \<Rightarrow> True
      | _ \<Rightarrow> False)"

subsection \<open>Responses and pages of the examples\<close>

definition html_response :: "js_string \<Rightarrow> response" where
  "html_response html =
     \<lparr>ok = True, status = 200, body = Resolved html, content_type = Some (lit ''text/html'')\<rparr>"

definition article_page :: js_string where
  "article_page = lit ''<html><body><p>Some text</p></body></html>''"

definition comments_page :: js_string where
  "comments_page = lit ''<html><body><!-- Just comments --> </body></html>''"

definition long_page :: js_string where
  "long_page = replicate 5000 0x61"

definition json_response :: response where
  "json_response =
     \<lparr>ok = True, status = 200, body = Resolved (lit ''{}''),
      content_type = Some (lit ''application/json'')\<rparr>"

definition failed_json_response :: response where
  "failed_json_response =
     \<lparr>ok = False, status = 500, body = Resolved (lit ''{}''),
      content_type = Some (lit ''application/json'')\<rparr>"

definition empty_content_type_response :: response where
  "empty_content_type_response =
     \<lparr>ok = True, status = 200, body = Resolved (lit ''{}''), content_type = Some []\<rparr>"

section \<open>Properties of the Translate-Text tool\<close>

lemma trim_Nil: "trim [] = []"
  by (simp add: trim_def)

lemma valid_completion_iff:
  "valid_completion finishReason response \<longleftrightarrow>
     finishReason = Some (lit ''stop'') \<and> (\<exists>t. response = Some t \<and> trim t \<noteq> [])"
  by (cases response) (auto simp: valid_completion_def trim_Nil)

text \<open>Every run makes the one model call, with the translation prompt.\<close>

lemma execute_effects:
  "snd (translateTextTool_execute toLowerCase generateText text targetLanguage) =
     [GenerateText (translate_prompt text targetLanguage)]"
  by (simp add: translateTextTool_execute_def Let_def)

lemma execute_invalid:
  assumes "generateText (translate_prompt text targetLanguage) = Resolved r"
      and "\<not> valid_completion (finishReason_of r) (text_of r)"
  shows "fst (translateTextTool_execute toLowerCase generateText text targetLanguage) =
           TranslateError (invalid_translation_error (finishReason_of r))"
  using assms by (simp add: translateTextTool_execute_def Let_def)

lemma execute_valid:
  assumes "generateText (translate_prompt text targetLanguage) = Resolved r"
      and "finishReason_of r = Some (lit ''stop'')" and "text_of r = Some t" and "trim t \<noteq> []"
  shows "fst (translateTextTool_execute toLowerCase generateText text targetLanguage) =
           (if toLowerCase (trim t) = toLowerCase (trim text) \<and> targetLanguage \<noteq> lit ''en''
            then TranslateError (heuristic_error targetLanguage)
            else TranslatedText (trim t))"
proof -
  have "valid_completion (finishReason_of r) (text_of r)"
    using assms(2-4) by (simp add: valid_completion_iff)
  then show ?thesis
    using assms by (simp add: translateTextTool_execute_def Let_def)
qed

text \<open>
  C1, as the code has it. When \<open>targetLanguage\<close> is "en", the model resolves with
  \<open>finishReason\<close> "stop" and a text that is exactly the input, and the input has a
  character that is not whitespace, \<open>execute\<close> returns \<open>{translatedText: text.trim()}\<close>:
  the input without its leading and trailing whitespace. That is the original input string
  exactly when the input has no whitespace at either end.
\<close>

theorem translate_echo_en:
  assumes "generateText (translate_prompt text (lit ''en'')) =
             Resolved (Structured (Some text) (Some (lit ''stop'')))"
      and "trim text \<noteq> []"
  shows "fst (translateTextTool_execute toLowerCase generateText text (lit ''en'')) =
           TranslatedText (trim text) \<and>
         (fst (translateTextTool_execute toLowerCase generateText text (lit ''en'')) =
           TranslatedText text) = (trim text = text)"
proof -
  have "fst (translateTextTool_execute toLowerCase generateText text (lit ''en'')) =
          TranslatedText (trim text)"
    using execute_valid [of generateText "text" "lit ''en''"
        "Structured (Some text) (Some (lit ''stop''))" "text" toLowerCase] assms
    by simp
  then show ?thesis by auto
qed

theorem translate_echo_en_witness:
  "trim (lit ''Hello world'') \<noteq> [] \<and>
   fst (translateTextTool_execute ascii_toLowerCase
          (\<lambda>p. Resolved (Structured (Some (lit ''Hello world'')) (Some (lit ''stop''))))
          (lit ''Hello world'') (lit ''en'')) = TranslatedText (lit ''Hello world'')"
proof -
  have h: "trim (lit ''Hello world'') \<noteq> []"
    by (simp add: trim_def lit_def isWhiteSpace_def)
  have e: "trim (lit ''Hello world'') = lit ''Hello world''"
    by (simp add: trim_def lit_def isWhiteSpace_def)
  show ?thesis
    using h e translate_echo_en [of "\<lambda>p. Resolved (Structured (Some (lit ''Hello world'')) (Some (lit ''stop'')))"
        "lit ''Hello world''" ascii_toLowerCase]
    by simp
qed

text \<open>
  C1 as stated fails on an input with whitespace at an end: for the input " Hello ",
  echoed by the model, the returned \<open>translatedText\<close> is "Hello", not the original input.
\<close>

theorem translate_echo_en_padded_counterexample:
  "fst (translateTextTool_execute ascii_toLowerCase
          (\<lambda>p. Resolved (Structured (Some (lit '' Hello '')) (Some (lit ''stop''))))
          (lit '' Hello '') (lit ''en'')) = TranslatedText (lit ''Hello'') \<and>
   TranslatedText (lit ''Hello'') \<noteq> TranslatedText (lit '' Hello '')"
proof -
  have e: "trim (lit '' Hello '') = lit ''Hello''"
    by (simp add: trim_def lit_def isWhiteSpace_def)
  have v: "valid_completion (Some (lit ''stop'')) (Some (lit '' Hello ''))"
    by (simp add: valid_completion_iff e) (simp add: lit_def)
  show ?thesis
    by (simp add: translateTextTool_execute_def Let_def v e) (simp add: lit_def)
qed

text \<open>
  C3, as the code has it. When the model call resolves, the result is a success if and
  only if \<open>finishReason\<close> is "stop", the returned text is non-empty after trimming, and the
  echo heuristic does not fire (the trimmed text does not equal the trimmed input
  case-insensitively, or \<open>targetLanguage\<close> is "en"). Whenever \<open>finishReason\<close> is not "stop"
  or the returned text is absent or empty after trimming, the result is the error
  "Translation failed. AI model did not provide a valid translation. Reason: " followed by
  the \<open>finishReason\<close>.
\<close>

theorem translate_success_iff:
  assumes "generateText (translate_prompt text targetLanguage) = Resolved r"
  shows "(is_TranslatedText (fst (translateTextTool_execute toLowerCase generateText text targetLanguage)) \<longleftrightarrow>
           finishReason_of r = Some (lit ''stop'') \<and>
           (\<exists>t. text_of r = Some t \<and> trim t \<noteq> [] \<and>
                \<not> (toLowerCase (trim t) = toLowerCase (trim text) \<and> targetLanguage \<noteq> lit ''en''))) \<and>
         (\<not> (finishReason_of r = Some (lit ''stop'') \<and> (\<exists>t. text_of r = Some t \<and> trim t \<noteq> [])) \<longrightarrow>
            fst (translateTextTool_execute toLowerCase generateText text targetLanguage) =
              TranslateError (lit ''Translation failed. AI model did not provide a valid translation. Reason: '' @
                              interpolate (finishReason_of r)))"
proof (cases "valid_completion (finishReason_of r) (text_of r)")
  case True
  then obtain t where t: "finishReason_of r = Some (lit ''stop'')" "text_of r = Some t" "trim t \<noteq> []"
    by (auto simp: valid_completion_iff)
  show ?thesis
    using execute_valid [of generateText "text" targetLanguage r t toLowerCase] assms t by auto
next
  case False
  then show ?thesis
    using execute_invalid [of generateText "text" targetLanguage r toLowerCase] assms False
    by (auto simp: valid_completion_iff invalid_translation_error_def)
qed

text \<open>
  The tests "should successfully translate text" and "finishReason is not stop" of the
  repository, as instances.
\<close>

theorem translate_success_iff_witness:
  "is_TranslatedText (fst (translateTextTool_execute ascii_toLowerCase
      (\<lambda>p. Resolved (Structured (Some (lit ''Hola Mundo'')) (Some (lit ''stop''))))
      (lit ''Hello world'') (lit ''es''))) \<and>
   fst (translateTextTool_execute ascii_toLowerCase
      (\<lambda>p. Resolved (Structured (Some (lit ''Incomplete'')) (Some (lit ''length''))))
      (lit ''Hello world'') (lit ''es'')) =
     TranslateError (lit ''Translation failed. AI model did not provide a valid translation. Reason: length'')"
proof -
  have a: "trim (lit ''Hola Mundo'') = lit ''Hola Mundo''"
    by (simp add: trim_def lit_def isWhiteSpace_def)
  have b: "trim (lit ''Hello world'') = lit ''Hello world''"
    by (simp add: trim_def lit_def isWhiteSpace_def)
  have c: "ascii_toLowerCase (lit ''Hola Mundo'') \<noteq> ascii_toLowerCase (lit ''Hello world'')"
    by (simp add: ascii_toLowerCase_def lit_def)
  have d: "lit ''Hola Mundo'' \<noteq> []" "lit ''length'' \<noteq> lit ''stop''"
    by (simp_all add: lit_def)
  have e: "lit ''Translation failed. AI model did not provide a valid translation. Reason: '' @ lit ''length'' =
           lit ''Translation failed. AI model did not provide a valid translation. Reason: length''"
    by (simp add: lit_def)
  show ?thesis
    using translate_success_iff [of "\<lambda>p. Resolved (Structured (Some (lit ''Hola Mundo'')) (Some (lit ''stop'')))"
            "lit ''Hello world''" "lit ''es''" _ ascii_toLowerCase]
          translate_success_iff [of "\<lambda>p. Resolved (Structured (Some (lit ''Incomplete'')) (Some (lit ''length'')))"
            "lit ''Hello world''" "lit ''es''" _ ascii_toLowerCase]
          a b c d e
    by (simp add: interpolate_def)
qed

text \<open>
  C3 as stated fails when the model echoes the input: \<open>finishReason\<close> is "stop" and the
  text is non-empty after trimming, yet the result is an error (the heuristic of line 25).
\<close>

theorem translate_success_iff_echo_counterexample:
  "finishReason_of (Structured (Some (lit ''Hello world'')) (Some (lit ''stop''))) = Some (lit ''stop'') \<and>
   text_of (Structured (Some (lit ''Hello world'')) (Some (lit ''stop''))) = Some (lit ''Hello world'') \<and>
   trim (lit ''Hello world'') \<noteq> [] \<and>
   \<not> is_TranslatedText (fst (translateTextTool_execute ascii_toLowerCase
      (\<lambda>p. Resolved (Structured (Some (lit ''Hello world'')) (Some (lit ''stop''))))
      (lit ''Hello world'') (lit ''es'')))"
proof -
  have b: "trim (lit ''Hello world'') = lit ''Hello world''"
    by (simp add: trim_def lit_def isWhiteSpace_def)
  have v: "valid_completion (Some (lit ''stop'')) (Some (lit ''Hello world''))"
    by (simp add: valid_completion_iff b) (simp add: lit_def)
  have n: "lit ''es'' \<noteq> lit ''en''"
    by (simp add: lit_def)
  show ?thesis
    using n by (simp add: translateTextTool_execute_def Let_def v b) (simp add: lit_def)
qed

text \<open>
  C4, as the code has it. When the model resolves with \<open>finishReason\<close> "stop" and a text
  that is non-empty after trimming and equals the trimmed input case-insensitively, and
  \<open>targetLanguage\<close> is not "en", the result is the error "Translation to <targetLanguage>
  might have failed or returned original text. The language might be unsupported or the
  text too short/ambiguous."
\<close>

theorem translate_echo_other_language:
  assumes "generateText (translate_prompt text targetLanguage) =
             Resolved (Structured (Some t) (Some (lit ''stop'')))"
      and "trim t \<noteq> []"
      and "toLowerCase (trim t) = toLowerCase (trim text)"
      and "targetLanguage \<noteq> lit ''en''"
  shows "fst (translateTextTool_execute toLowerCase generateText text targetLanguage) =
           TranslateError (lit ''Translation to '' @ targetLanguage @
             lit '' might have failed or returned original text. The language might be unsupported or the text too short/ambiguous.'')"
  using execute_valid [of generateText "text" targetLanguage
      "Structured (Some t) (Some (lit ''stop''))" t toLowerCase] assms
  by (simp add: heuristic_error_def)

text \<open>An echo that differs from the input in case and in trailing whitespace.\<close>

theorem translate_echo_other_language_witness:
  "trim (lit ''hello WORLD '') \<noteq> [] \<and>
   ascii_toLowerCase (trim (lit ''hello WORLD '')) = ascii_toLowerCase (trim (lit ''Hello world'')) \<and>
   lit ''es'' \<noteq> lit ''en'' \<and>
   fst (translateTextTool_execute ascii_toLowerCase
      (\<lambda>p. Resolved (Structured (Some (lit ''hello WORLD '')) (Some (lit ''stop''))))
      (lit ''Hello world'') (lit ''es'')) =
     TranslateError (lit ''Translation to es might have failed or returned original text. The language might be unsupported or the text too short/ambiguous.'')"
proof -
  have a: "trim (lit ''hello WORLD '') = lit ''hello WORLD''"
    by (simp add: trim_def lit_def isWhiteSpace_def)
  have b: "trim (lit ''Hello world'') = lit ''Hello world''"
    by (simp add: trim_def lit_def isWhiteSpace_def)
  have c: "ascii_toLowerCase (lit ''hello WORLD'') = ascii_toLowerCase (lit ''Hello world'')"
    by (simp add: ascii_toLowerCase_def lit_def)
  have n: "lit ''es'' \<noteq> lit ''en''" "lit ''hello WORLD'' \<noteq> []"
    by (simp_all add: lit_def)
  have e: "lit ''Translation to '' @ lit ''es'' @
             lit '' might have failed or returned original text. The language might be unsupported or the text too short/ambiguous.'' =
           lit ''Translation to es might have failed or returned original text. The language might be unsupported or the text too short/ambiguous.''"
    by (simp add: lit_def)
  show ?thesis
    using translate_echo_other_language [of "\<lambda>p. Resolved (Structured (Some (lit ''hello WORLD '')) (Some (lit ''stop'')))"
            "lit ''Hello world''" "lit ''es''" "lit ''hello WORLD ''" ascii_toLowerCase]
          a b c n e
    by simp
qed

text \<open>
  C4 as stated fails on a whitespace-only input (which the schema accepts) echoed by the
  model: both trimmed texts are empty, so they are equal, but the guard of line 23 fails
  first and the result is the "Translation failed" error with reason "stop".
\<close>

theorem translate_echo_blank_counterexample:
  "ascii_toLowerCase (trim (lit '' '')) = ascii_toLowerCase (trim (lit '' '')) \<and>
   lit ''es'' \<noteq> lit ''en'' \<and>
   fst (translateTextTool_execute ascii_toLowerCase
      (\<lambda>p. Resolved (Structured (Some (lit '' '')) (Some (lit ''stop''))))
      (lit '' '') (lit ''es'')) =
     TranslateError (lit ''Translation failed. AI model did not provide a valid translation. Reason: stop'') \<and>
   TranslateError (lit ''Translation failed. AI model did not provide a valid translation. Reason: stop'') \<noteq>
     TranslateError (lit ''Translation to es might have failed or returned original text. The language might be unsupported or the text too short/ambiguous.'')"
proof -
  have a: "trim (lit '' '') = []"
    by (simp add: trim_def lit_def isWhiteSpace_def)
  have v: "\<not> valid_completion (Some (lit ''stop'')) (Some (lit '' ''))"
    by (simp add: valid_completion_iff a)
  have n: "lit ''es'' \<noteq> lit ''en''"
    by (simp add: lit_def)
  have e: "lit ''Translation failed. AI model did not provide a valid translation. Reason: '' @ lit ''stop'' =
           lit ''Translation failed. AI model did not provide a valid translation. Reason: stop''"
    by (simp add: lit_def)
  have d: "lit ''Translation failed. AI model did not provide a valid translation. Reason: stop'' \<noteq>
     lit ''Translation to es might have failed or returned original text. The language might be unsupported or the text too short/ambiguous.''"
    by (simp add: lit_def)
  show ?thesis
    using n e d
    by (simp add: translateTextTool_execute_def Let_def v invalid_translation_error_def interpolate_def)
qed

subsection \<open>The input schema\<close>

text \<open>The schema accepts every non-empty text with a language code of two code units or more.\<close>

lemma safeParse_valid:
  assumes "1 \<le> length t" and "2 \<le> length l"
  shows "translateTextTool_parameters_safeParse \<lparr>arg_text = Str t, arg_targetLanguage = Str l\<rparr> = Inr (t, l)"
  using assms
  by (auto simp: translateTextTool_parameters_safeParse_def z_string_min_def Suc_le_eq)

lemma safeParse_Inr_iff:
  "translateTextTool_parameters_safeParse a = Inr (t, l) \<longleftrightarrow>
     arg_text a = Str t \<and> arg_targetLanguage a = Str l \<and> 1 \<le> length t \<and> 2 \<le> length l"
  by (cases "arg_text a"; cases "arg_targetLanguage a")
     (auto simp: translateTextTool_parameters_safeParse_def z_string_min_def Suc_le_eq
           split: if_splits list.splits)

text \<open>
  C9. Whatever the \<open>text\<close> property is, arguments whose \<open>targetLanguage\<close> is a string
  shorter than 2 characters fail the schema: the parse returns issues, among them
  \<open>too_small\<close> (minimum 2) at \<open>targetLanguage\<close>, and the tool call ends with invalid
  arguments and no outbound call, so \<open>execute\<close> is not reached. Likewise arguments whose
  \<open>text\<close> is the empty string fail with \<open>too_small\<close> (minimum 1) at \<open>text\<close>, whatever the
  \<open>targetLanguage\<close> property is.
\<close>

theorem parameters_reject_invalid_input:
  "(length l < 2 \<longrightarrow>
      (\<exists>issues. translateTextTool_parameters_safeParse \<lparr>arg_text = v, arg_targetLanguage = Str l\<rparr> = Inl issues \<and>
         Too_small ''targetLanguage'' 2 \<in> set issues \<and>
         translateTextTool_call toLowerCase generateText \<lparr>arg_text = v, arg_targetLanguage = Str l\<rparr> =
           (InvalidArguments issues, []))) \<and>
   (\<exists>issues. translateTextTool_parameters_safeParse \<lparr>arg_text = Str [], arg_targetLanguage = w\<rparr> = Inl issues \<and>
      Too_small ''text'' 1 \<in> set issues \<and>
      translateTextTool_call toLowerCase generateText \<lparr>arg_text = Str [], arg_targetLanguage = w\<rparr> =
        (InvalidArguments issues, []))"
proof (intro conjI impI)
  assume "length l < 2"
  then show "\<exists>issues. translateTextTool_parameters_safeParse \<lparr>arg_text = v, arg_targetLanguage = Str l\<rparr> = Inl issues \<and>
         Too_small ''targetLanguage'' 2 \<in> set issues \<and>
         translateTextTool_call toLowerCase generateText \<lparr>arg_text = v, arg_targetLanguage = Str l\<rparr> =
           (InvalidArguments issues, [])"
    by (cases v)
       (auto simp: translateTextTool_call_def translateTextTool_parameters_safeParse_def z_string_min_def)
next
  show "\<exists>issues. translateTextTool_parameters_safeParse \<lparr>arg_text = Str [], arg_targetLanguage = w\<rparr> = Inl issues \<and>
      Too_small ''text'' 1 \<in> set issues \<and>
      translateTextTool_call toLowerCase generateText \<lparr>arg_text = Str [], arg_targetLanguage = w\<rparr> =
        (InvalidArguments issues, [])"
    by (cases w)
       (auto simp: translateTextTool_call_def translateTextTool_parameters_safeParse_def z_string_min_def)
qed

text \<open>The schema test of the repository: \<open>targetLanguage\<close> "e".\<close>

theorem parameters_reject_invalid_input_witness:
  "length (lit ''e'') < 2 \<and>
   (\<exists>issues. translateTextTool_parameters_safeParse
        \<lparr>arg_text = Str (lit ''Hello world''), arg_targetLanguage = Str (lit ''e'')\<rparr> = Inl issues \<and>
      Too_small ''targetLanguage'' 2 \<in> set issues \<and>
      translateTextTool_call ascii_toLowerCase (\<lambda>p. RejectedOther)
        \<lparr>arg_text = Str (lit ''Hello world''), arg_targetLanguage = Str (lit ''e'')\<rparr> =
          (InvalidArguments issues, []))"
proof -
  have h: "length (lit ''e'') < 2"
    by (simp add: lit_def)
  show ?thesis
    using h parameters_reject_invalid_input [of "lit ''e''" "Str (lit ''Hello world'')"
        ascii_toLowerCase "\<lambda>p. RejectedOther"]
    by simp
qed

text \<open>There the only issue is the one the test expects, with its message.\<close>

lemma test_short_targetLanguage:
  "translateTextTool_parameters_safeParse
        \<lparr>arg_text = Str (lit ''Hello world''), arg_targetLanguage = Str (lit ''e'')\<rparr> =
     Inl [Too_small ''targetLanguage'' 2] \<and>
   too_small_message 2 = lit ''String must contain at least 2 character(s)''"
  by (simp add: translateTextTool_parameters_safeParse_def z_string_min_def too_small_message_def)
     (simp add: lit_def number_toString.simps)

section \<open>Properties of the Summarize-URL tool\<close>

subsection \<open>The steps of \<open>execute\<close>\<close>

lemma execute_not_ok:
  assumes "fetch url = Resolved r" and "\<not> ok r"
  shows "summarizeUrl_execute fetch generateText url =
           (error_result (http_status_error (status r)), [Fetch url])"
  using assms by (simp add: summarizeUrl_execute_def)

lemma execute_not_html:
  assumes "fetch url = Resolved r" and "ok r" and "body r = Resolved htmlContent"
      and "not_html (content_type r)"
  shows "summarizeUrl_execute fetch generateText url =
           (error_result (content_type_error (interpolate (content_type r))), [Fetch url])"
  using assms by (simp add: summarizeUrl_execute_def)

lemma execute_html:
  assumes "fetch url = Resolved r" and "ok r" and "body r = Resolved htmlContent"
      and "\<not> not_html (content_type r)"
  shows "summarizeUrl_execute fetch generateText url =
           (fst (summarize_html generateText htmlContent),
            Fetch url # snd (summarize_html generateText htmlContent))"
  using assms by (simp add: summarizeUrl_execute_def)

lemma not_html_iff:
  "not_html contentType \<longleftrightarrow>
     (\<exists>c. contentType = Some c \<and> c \<noteq> [] \<and> \<not> str_includes c (lit ''text/html''))"
  by (cases contentType) (auto simp: not_html_def)

lemma summarize_html_no_text:
  assumes "trim (stripHtmlTags htmlContent) = []"
  shows "summarize_html generateText htmlContent = (error_result no_text_error, [])"
  using assms by (simp add: summarize_html_def)

lemma summarize_html_effects:
  assumes "trim (stripHtmlTags htmlContent) \<noteq> []"
  shows "snd (summarize_html generateText htmlContent) =
           [GenerateText (summarize_prompt (stripHtmlTags htmlContent))]"
  using assms by (simp add: summarize_html_def Let_def)

lemma summarize_html_result:
  assumes "trim (stripHtmlTags htmlContent) \<noteq> []"
  shows "fst (summarize_html generateText htmlContent) =
           (case generateText (summarize_prompt (stripHtmlTags htmlContent)) of
              Resolved generationResult \<Rightarrow>
                \<lparr>summary = (case generationResult of PlainString s \<Rightarrow> Some s | Structured t f \<Rightarrow> t),
                 error = None\<rparr>
            | RejectedError message \<Rightarrow> error_result (lit ''AI summarization failed: '' @ message)
            | RejectedOther \<Rightarrow> error_result (lit ''Unknown error during AI summarization.''))"
  using assms by (simp add: summarize_html_def Let_def)

text \<open>
  The two error messages differ in their first character.
\<close>

lemma http_status_error_neq_content_type_error:
  "http_status_error code \<noteq> content_type_error contentType"
  by (simp add: http_status_error_def content_type_error_def lit_def)

subsection \<open>The pages of the examples\<close>

lemma text_html_is_html: "\<not> not_html (Some (lit ''text/html''))"
  by (simp add: not_html_def lit_def)

lemma strip_article_page: "stripHtmlTags article_page = lit ''Some text''"
  by (simp add: article_page_def lit_def)

lemma trim_some_text: "trim (lit ''Some text'') = lit ''Some text''"
  by (simp add: trim_def lit_def isWhiteSpace_def)

lemma strip_comments_page: "stripHtmlTags comments_page = lit '' ''"
  by (simp add: comments_page_def lit_def)

text \<open>
  A text with no \<open><\<close> has no match of the expression and is returned as it is.
\<close>

lemma stripHtmlTags_no_tag: "0x3C \<notin> set s \<Longrightarrow> stripHtmlTags s = s"
  by (induction s) auto

lemma strip_long_page: "stripHtmlTags long_page = long_page"
  by (rule stripHtmlTags_no_tag) (simp add: long_page_def)

lemma trim_long_page: "trim long_page = long_page"
  by (simp add: long_page_def trim_def isWhiteSpace_def dropWhile_replicate)

text \<open>
  The page of the repository's test "no text content" keeps the text of its \<open>title\<close>
  element: only the tags are stripped, so its stripped text is not empty.
\<close>

lemma test_empty_page_strip:
  "stripHtmlTags (lit ''<html><head><title>Empty Page</title></head><body><!-- Just comments --></body></html>'') =
     lit ''Empty Page''"
  by (simp add: lit_def)

subsection \<open>Results and errors\<close>

text \<open>
  C2, as the code has it. For every URL whose fetch resolves with an ok response, a
  readable body and a content type that passes the HTML check, and whose stripped text is
  not whitespace only: for every outcome of the model call the summary and the error field
  are never both defined; and for every outcome other than a structured result whose
  \<open>text\<close> is absent (a thrown error or other value, a plain string, a structured result
  with a text, the empty string included), exactly one of the two fields is defined.
\<close>

theorem summarize_exactly_one_field:
  assumes "fetch url = Resolved r" and "ok r" and "body r = Resolved htmlContent"
      and "\<not> not_html (content_type r)"
      and "trim (stripHtmlTags htmlContent) \<noteq> []"
  shows "\<not> (summary (fst (summarizeUrl_execute fetch generateText url)) \<noteq> None \<and>
            error (fst (summarizeUrl_execute fetch generateText url)) \<noteq> None) \<and>
         (\<not> text_absent (generateText (summarize_prompt (stripHtmlTags htmlContent))) \<longrightarrow>
            exactly_one_populated (fst (summarizeUrl_execute fetch generateText url)))"
proof -
  have "fst (summarizeUrl_execute fetch generateText url) =
          fst (summarize_html generateText htmlContent)"
    using execute_html [of fetch url r htmlContent generateText] assms(1-4) by simp
  then show ?thesis
    using summarize_html_result [OF assms(5), of generateText]
    by (auto simp: exactly_one_populated_def text_absent_def error_result_def
             split: settled.splits generation_result.splits option.splits)
qed

theorem summarize_exactly_one_field_witness:
  "ok (html_response article_page) \<and> \<not> not_html (content_type (html_response article_page)) \<and>
   trim (stripHtmlTags article_page) \<noteq> [] \<and>
   \<not> text_absent (Resolved (Structured (Some (lit ''A summary.'')) None)) \<and>
   exactly_one_populated
     (fst (summarizeUrl_execute (\<lambda>u. Resolved (html_response article_page))
             (\<lambda>p. Resolved (Structured (Some (lit ''A summary.'')) None)) (lit ''https://example.com/article'')))"
proof -
  have h: "ok (html_response article_page)"
          "body (html_response article_page) = Resolved article_page"
          "\<not> not_html (content_type (html_response article_page))"
    by (simp_all add: html_response_def text_html_is_html)
  have t: "trim (stripHtmlTags article_page) \<noteq> []"
    by (simp add: strip_article_page trim_some_text) (simp add: lit_def)
  have a: "\<not> text_absent (Resolved (Structured (Some (lit ''A summary.'')) None))"
    by (simp add: text_absent_def)
  show ?thesis
    using h t a summarize_exactly_one_field [of "\<lambda>u. Resolved (html_response article_page)"
        "lit ''https://example.com/article''" "html_response article_page" article_page
        "\<lambda>p. Resolved (Structured (Some (lit ''A summary.'')) None)"]
    by simp
qed

text \<open>
  C2 as stated fails for a structured model result whose \<open>text\<close> is absent: the result is
  \<open>{summary: undefined}\<close>, with neither field defined.
\<close>

theorem summarize_text_absent_counterexample:
  "ok (html_response article_page) \<and> \<not> not_html (content_type (html_response article_page)) \<and>
   trim (stripHtmlTags article_page) \<noteq> [] \<and>
   fst (summarizeUrl_execute (\<lambda>u. Resolved (html_response article_page))
          (\<lambda>p. Resolved (Structured None (Some (lit ''stop''))))
          (lit ''https://example.com/article'')) = \<lparr>summary = None, error = None\<rparr> \<and>
   \<not> exactly_one_populated \<lparr>summary = None, error = None\<rparr>"
proof -
  have h: "ok (html_response article_page)"
          "body (html_response article_page) = Resolved article_page"
          "\<not> not_html (content_type (html_response article_page))"
    by (simp_all add: html_response_def text_html_is_html)
  have t: "trim (stripHtmlTags article_page) \<noteq> []"
    by (simp add: strip_article_page trim_some_text) (simp add: lit_def)
  have "fst (summarizeUrl_execute (\<lambda>u. Resolved (html_response article_page))
          (\<lambda>p. Resolved (Structured None (Some (lit ''stop''))))
          (lit ''https://example.com/article'')) = \<lparr>summary = None, error = None\<rparr>"
    using execute_html [of "\<lambda>u. Resolved (html_response article_page)"
        "lit ''https://example.com/article''" "html_response article_page" article_page
        "\<lambda>p. Resolved (Structured None (Some (lit ''stop'')))"] h
        summarize_html_result [OF t, of "\<lambda>p. Resolved (Structured None (Some (lit ''stop'')))"]
    by simp
  then show ?thesis
    using h t by (simp add: exactly_one_populated_def)
qed

text \<open>
  For a structured result whose \<open>text\<close> is the empty string the summary field is defined
  and empty.
\<close>

lemma summarize_empty_text:
  "fst (summarizeUrl_execute (\<lambda>u. Resolved (html_response article_page))
          (\<lambda>p. Resolved (Structured (Some []) (Some (lit ''stop''))))
          (lit ''https://example.com/article'')) = \<lparr>summary = Some [], error = None\<rparr>"
proof -
  have h: "ok (html_response article_page)"
          "body (html_response article_page) = Resolved article_page"
          "\<not> not_html (content_type (html_response article_page))"
    by (simp_all add: html_response_def text_html_is_html)
  have t: "trim (stripHtmlTags article_page) \<noteq> []"
    by (simp add: strip_article_page trim_some_text) (simp add: lit_def)
  show ?thesis
    using execute_html [of "\<lambda>u. Resolved (html_response article_page)"
        "lit ''https://example.com/article''" "html_response article_page" article_page
        "\<lambda>p. Resolved (Structured (Some []) (Some (lit ''stop'')))"] h
        summarize_html_result [OF t, of "\<lambda>p. Resolved (Structured (Some []) (Some (lit ''stop'')))"]
    by simp
qed

text \<open>
  C5. For every page that was fetched (an ok response, a readable body, a content type
  that passes the HTML check) whose body, after stripping the tags, is empty or whitespace
  only, \<open>execute\<close> returns exactly \<open>{error: "No text content found on the page to
  summarize."}\<close>, and the only outbound call of the run is the fetch: the language model
  is not called.
\<close>

theorem no_text_content_error:
  assumes "fetch url = Resolved r" and "ok r" and "body r = Resolved htmlContent"
      and "\<not> not_html (content_type r)"
      and "trim (stripHtmlTags htmlContent) = []"
  shows "summarizeUrl_execute fetch generateText url =
           (\<lparr>summary = None,
             error = Some (lit ''No text content found on the page to summarize.'')\<rparr>,
            [Fetch url])"
  using execute_html [of fetch url r htmlContent generateText] assms
        summarize_html_no_text [of htmlContent generateText]
  by (simp add: error_result_def no_text_error_def)

theorem no_text_content_error_witness:
  "ok (html_response comments_page) \<and>
   \<not> not_html (content_type (html_response comments_page)) \<and>
   trim (stripHtmlTags comments_page) = [] \<and>
   summarizeUrl_execute (\<lambda>u. Resolved (html_response comments_page))
       (\<lambda>p. Resolved (PlainString (lit ''A summary.''))) (lit ''https://example.com/article'') =
     (\<lparr>summary = None,
       error = Some (lit ''No text content found on the page to summarize.'')\<rparr>,
      [Fetch (lit ''https://example.com/article'')])"
proof -
  have t: "trim (stripHtmlTags comments_page) = []"
    by (simp add: strip_comments_page) (simp add: trim_def lit_def isWhiteSpace_def)
  have h: "ok (html_response comments_page)"
          "body (html_response comments_page) = Resolved comments_page"
          "\<not> not_html (content_type (html_response comments_page))"
    by (simp_all add: html_response_def text_html_is_html)
  show ?thesis
    using h t no_text_content_error [of "\<lambda>u. Resolved (html_response comments_page)"
        "lit ''https://example.com/article''" "html_response comments_page" comments_page
        "\<lambda>p. Resolved (PlainString (lit ''A summary.''))"]
    by simp
qed

text \<open>
  C6, as the code has it. For every fetch response with ok status whose body has been
  read and whose Content-Type header is present with a non-empty value that does not
  contain "text/html", \<open>execute\<close> returns exactly \<open>{error: "Content is not HTML (type:
  <type>). Cannot summarize."}\<close> with the content type interpolated, and the only outbound
  call of the run is the fetch: the language model is not called.
\<close>

theorem content_type_error_result:
  assumes "fetch url = Resolved r" and "ok r" and "body r = Resolved htmlContent"
      and "content_type r = Some contentType" and "contentType \<noteq> []"
      and "\<not> str_includes contentType (lit ''text/html'')"
  shows "summarizeUrl_execute fetch generateText url =
           (\<lparr>summary = None,
             error = Some (lit ''Content is not HTML (type: '' @ contentType @ lit ''). Cannot summarize.'')\<rparr>,
            [Fetch url])"
proof -
  have "not_html (content_type r)"
    using assms(4-6) by (simp add: not_html_def)
  then show ?thesis
    using execute_not_html [of fetch url r htmlContent generateText] assms
    by (simp add: error_result_def content_type_error_def interpolate_def)
qed

theorem content_type_error_result_witness:
  "ok json_response \<and> content_type json_response = Some (lit ''application/json'') \<and>
   lit ''application/json'' \<noteq> [] \<and>
   \<not> str_includes (lit ''application/json'') (lit ''text/html'') \<and>
   summarizeUrl_execute (\<lambda>u. Resolved json_response)
       (\<lambda>p. Resolved (PlainString (lit ''A summary.''))) (lit ''https://example.com/article'') =
     (\<lparr>summary = None,
       error = Some (lit ''Content is not HTML (type: application/json). Cannot summarize.'')\<rparr>,
      [Fetch (lit ''https://example.com/article'')])"
proof -
  have h: "ok json_response" "body json_response = Resolved (lit ''{}'')"
          "content_type json_response = Some (lit ''application/json'')"
    by (simp_all add: json_response_def)
  have n: "lit ''application/json'' \<noteq> []"
          "\<not> str_includes (lit ''application/json'') (lit ''text/html'')"
    by (simp_all add: lit_def)
  have e: "lit ''Content is not HTML (type: '' @ lit ''application/json'' @ lit ''). Cannot summarize.'' =
           lit ''Content is not HTML (type: application/json). Cannot summarize.''"
    by (simp add: lit_def)
  show ?thesis
    using h n e content_type_error_result [of "\<lambda>u. Resolved json_response"
        "lit ''https://example.com/article''" json_response "lit ''{}''" "lit ''application/json''"
        "\<lambda>p. Resolved (PlainString (lit ''A summary.''))"]
    by simp
qed

text \<open>
  C6 as stated fails for a Content-Type header that is present with an empty value: the
  empty string is falsy in the test of line 36, so the run goes on to extraction and calls
  the language model.
\<close>

theorem empty_content_type_counterexample:
  "ok empty_content_type_response \<and> content_type empty_content_type_response = Some [] \<and>
   \<not> str_includes [] (lit ''text/html'') \<and>
   summarizeUrl_execute (\<lambda>u. Resolved empty_content_type_response)
       (\<lambda>p. Resolved (PlainString (lit ''A summary.''))) (lit ''https://example.com/data'') =
     (\<lparr>summary = Some (lit ''A summary.''), error = None\<rparr>,
      [Fetch (lit ''https://example.com/data''),
       GenerateText (lit ''Summarize the following text:'' @ [0x0A, 0x0A] @ lit ''{}'')])"
proof -
  have s: "stripHtmlTags (lit ''{}'') = lit ''{}''" "trim (lit ''{}'') = lit ''{}''" "lit ''{}'' \<noteq> []"
          "take 4000 (lit ''{}'') = lit ''{}''"
    by (simp_all add: lit_def trim_def isWhiteSpace_def)
  have n: "\<not> str_includes [] (lit ''text/html'')"
    by (simp add: lit_def)
  show ?thesis
    using n
    by (simp add: empty_content_type_response_def summarizeUrl_execute_def not_html_def
          summarize_html_def Let_def s summarize_prompt_def substring0_def)
qed

text \<open>
  C7. For every fetch that resolves with a response whose \<open>ok\<close> is false, \<open>execute\<close>
  returns exactly \<open>{error: "Failed to fetch page: HTTP status <code>"}\<close> with the decimal
  status interpolated; for status 404 that is \<open>{error: "Failed to fetch page: HTTP status
  404"}\<close>.
\<close>

theorem http_status_error_result:
  assumes "fetch url = Resolved r" and "\<not> ok r"
  shows "fst (summarizeUrl_execute fetch generateText url) =
           \<lparr>summary = None,
            error = Some (lit ''Failed to fetch page: HTTP status '' @ number_toString (unat (status r)))\<rparr> \<and>
         (status r = 404 \<longrightarrow>
            fst (summarizeUrl_execute fetch generateText url) =
              \<lparr>summary = None, error = Some (lit ''Failed to fetch page: HTTP status 404'')\<rparr>)"
proof -
  have n: "number_toString 404 = lit ''404''"
    by (simp add: lit_def number_toString.simps)
  have "lit ''Failed to fetch page: HTTP status '' @ lit ''404'' = lit ''Failed to fetch page: HTTP status 404''"
    by (simp add: lit_def)
  then show ?thesis
    using execute_not_ok [of fetch url r generateText] assms n
    by (simp add: error_result_def http_status_error_def)
qed

theorem http_status_error_result_witness:
  "\<not> ok \<lparr>ok = False, status = 404, body = RejectedOther, content_type = None\<rparr> \<and>
   fst (summarizeUrl_execute
          (\<lambda>u. Resolved \<lparr>ok = False, status = 404, body = RejectedOther, content_type = None\<rparr>)
          (\<lambda>p. RejectedOther) (lit ''https://example.com/article'')) =
     \<lparr>summary = None, error = Some (lit ''Failed to fetch page: HTTP status 404'')\<rparr>"
  using http_status_error_result
          [of "\<lambda>u. Resolved \<lparr>ok = False, status = 404, body = RejectedOther, content_type = None\<rparr>"
              "lit ''https://example.com/article''"
              "\<lparr>ok = False, status = 404, body = RejectedOther, content_type = None\<rparr>"
              "\<lambda>p. RejectedOther", THEN conjunct2]
  by simp

text \<open>
  C8. Whenever the run reaches the model call (the page was fetched and its stripped text
  is not whitespace only), there is exactly one model call, and its prompt is "Summarize
  the following text:" and two line feeds followed by the first min(length, 4000)
  characters of the stripped text: the whole text when it has at most 4000.
\<close>

theorem summarize_prompt_truncated:
  assumes "fetch url = Resolved r" and "ok r" and "body r = Resolved htmlContent"
      and "\<not> not_html (content_type r)"
      and "trim (stripHtmlTags htmlContent) \<noteq> []"
  shows "snd (summarizeUrl_execute fetch generateText url) =
           [Fetch url,
            GenerateText (lit ''Summarize the following text:'' @ [0x0A, 0x0A] @
              take (min (length (stripHtmlTags htmlContent)) 4000) (stripHtmlTags htmlContent))] \<and>
         (length (stripHtmlTags htmlContent) \<le> 4000 \<longrightarrow>
            snd (summarizeUrl_execute fetch generateText url) =
              [Fetch url,
               GenerateText (lit ''Summarize the following text:'' @ [0x0A, 0x0A] @
                 stripHtmlTags htmlContent)])"
proof -
  have "take (min (length (stripHtmlTags htmlContent)) 4000) (stripHtmlTags htmlContent) =
          take 4000 (stripHtmlTags htmlContent)"
    by (simp add: min_def)
  then show ?thesis
    using execute_html [of fetch url r htmlContent generateText] assms(1-4)
          summarize_html_effects [OF assms(5), of generateText]
    by (simp add: summarize_prompt_def substring0_def)
qed

text \<open>
  A short page, sent whole, and a page of 5000 characters, cut to its first 4000.
\<close>

theorem summarize_prompt_truncated_witness:
  "ok (html_response article_page) \<and> \<not> not_html (content_type (html_response article_page)) \<and>
   trim (stripHtmlTags article_page) \<noteq> [] \<and>
   snd (summarizeUrl_execute (\<lambda>u. Resolved (html_response article_page))
          (\<lambda>p. Resolved (Structured (Some (lit ''A summary.'')) None))
          (lit ''https://example.com/article'')) =
     [Fetch (lit ''https://example.com/article''),
      GenerateText (lit ''Summarize the following text:'' @ [0x0A, 0x0A] @ lit ''Some text'')] \<and>
   trim (stripHtmlTags long_page) \<noteq> [] \<and> length (stripHtmlTags long_page) = 5000 \<and>
   snd (summarizeUrl_execute (\<lambda>u. Resolved (html_response long_page))
          (\<lambda>p. Resolved (Structured (Some (lit ''A summary.'')) None))
          (lit ''https://example.com/article'')) =
     [Fetch (lit ''https://example.com/article''),
      GenerateText (lit ''Summarize the following text:'' @ [0x0A, 0x0A] @ replicate 4000 0x61)]"
proof -
  have h: "ok (html_response article_page)"
          "body (html_response article_page) = Resolved article_page"
          "\<not> not_html (content_type (html_response article_page))"
    by (simp_all add: html_response_def text_html_is_html)
  have t: "trim (stripHtmlTags article_page) \<noteq> []" "length (stripHtmlTags article_page) \<le> 4000"
    by (simp_all add: strip_article_page trim_some_text) (simp_all add: lit_def)
  have short: "snd (summarizeUrl_execute (\<lambda>u. Resolved (html_response article_page))
          (\<lambda>p. Resolved (Structured (Some (lit ''A summary.'')) None))
          (lit ''https://example.com/article'')) =
     [Fetch (lit ''https://example.com/article''),
      GenerateText (lit ''Summarize the following text:'' @ [0x0A, 0x0A] @ lit ''Some text'')]"
    using h t summarize_prompt_truncated [of "\<lambda>u. Resolved (html_response article_page)"
        "lit ''https://example.com/article''" "html_response article_page" article_page
        "\<lambda>p. Resolved (Structured (Some (lit ''A summary.'')) None)"]
    by (simp add: strip_article_page)
  have h': "ok (html_response long_page)"
           "body (html_response long_page) = Resolved long_page"
           "\<not> not_html (content_type (html_response long_page))"
    by (simp_all add: html_response_def text_html_is_html)
  have t': "trim (stripHtmlTags long_page) \<noteq> []" "length (stripHtmlTags long_page) = 5000"
           "take 4000 long_page = replicate 4000 0x61"
    by (simp_all add: strip_long_page trim_long_page) (simp_all add: long_page_def)
  have long: "snd (summarizeUrl_execute (\<lambda>u. Resolved (html_response long_page))
          (\<lambda>p. Resolved (Structured (Some (lit ''A summary.'')) None))
          (lit ''https://example.com/article'')) =
     [Fetch (lit ''https://example.com/article''),
      GenerateText (lit ''Summarize the following text:'' @ [0x0A, 0x0A] @ replicate 4000 0x61)]"
    using h' t' summarize_prompt_truncated [of "\<lambda>u. Resolved (html_response long_page)"
        "lit ''https://example.com/article''" "html_response long_page" long_page
        "\<lambda>p. Resolved (Structured (Some (lit ''A summary.'')) None)"]
    by (simp add: strip_long_page)
  show ?thesis
    using h t(1) t'(1,2) short long by simp
qed

text \<open>
  C10. For every fetch response with \<open>ok\<close> false, \<open>execute\<close> returns the HTTP-status
  error, whatever the Content-Type header and the body are; and a run that returns the
  content-type error, for any content type, had a response with \<open>ok\<close> true.
\<close>

theorem status_check_precedes_content_type_check:
  assumes "fetch url = Resolved r"
  shows "(\<not> ok r \<longrightarrow>
            fst (summarizeUrl_execute fetch generateText url) =
              \<lparr>summary = None,
               error = Some (lit ''Failed to fetch page: HTTP status '' @ number_toString (unat (status r)))\<rparr>) \<and>
         (\<forall>contentType.
            fst (summarizeUrl_execute fetch generateText url) =
              \<lparr>summary = None,
               error = Some (lit ''Content is not HTML (type: '' @ contentType @ lit ''). Cannot summarize.'')\<rparr>
            \<longrightarrow> ok r)"
proof (cases "ok r")
  case True
  then show ?thesis by simp
next
  case False
  then show ?thesis
    using execute_not_ok [of fetch url r generateText] assms
          http_status_error_neq_content_type_error [of "status r"]
    by (auto simp: error_result_def http_status_error_def content_type_error_def)
qed

text \<open>
  A JSON response with status 500 gives the HTTP-status error; the JSON response with
  \<open>ok\<close> true gives the content-type error.
\<close>

theorem status_check_precedes_content_type_check_witness:
  "\<not> ok failed_json_response \<and>
   fst (summarizeUrl_execute (\<lambda>u. Resolved failed_json_response)
          (\<lambda>p. RejectedOther) (lit ''https://example.com/data'')) =
     \<lparr>summary = None, error = Some (lit ''Failed to fetch page: HTTP status 500'')\<rparr> \<and>
   fst (summarizeUrl_execute (\<lambda>u. Resolved json_response)
          (\<lambda>p. RejectedOther) (lit ''https://example.com/data'')) =
     \<lparr>summary = None,
      error = Some (lit ''Content is not HTML (type: '' @ lit ''application/json'' @ lit ''). Cannot summarize.'')\<rparr> \<and>
   ok json_response"
proof -
  have h: "\<not> ok failed_json_response" "status failed_json_response = 500"
    by (simp_all add: failed_json_response_def)
  have n: "number_toString (unat (500 :: 16 word)) = lit ''500''"
    by (simp add: lit_def number_toString.simps)
  have e: "lit ''Failed to fetch page: HTTP status '' @ lit ''500'' =
           lit ''Failed to fetch page: HTTP status 500''"
    by (simp add: lit_def)
  have first: "fst (summarizeUrl_execute (\<lambda>u. Resolved failed_json_response)
          (\<lambda>p. RejectedOther) (lit ''https://example.com/data'')) =
     \<lparr>summary = None, error = Some (lit ''Failed to fetch page: HTTP status 500'')\<rparr>"
    using h n e status_check_precedes_content_type_check
            [of "\<lambda>u. Resolved failed_json_response" "lit ''https://example.com/data''"
                failed_json_response "\<lambda>p. RejectedOther", THEN conjunct1]
    by simp
  have j: "not_html (content_type json_response)" "body json_response = Resolved (lit ''{}'')"
    by (simp_all add: json_response_def not_html_def lit_def)
  have second: "fst (summarizeUrl_execute (\<lambda>u. Resolved json_response)
          (\<lambda>p. RejectedOther) (lit ''https://example.com/data'')) =
     \<lparr>summary = None,
      error = Some (lit ''Content is not HTML (type: '' @ lit ''application/json'' @ lit ''). Cannot summarize.'')\<rparr>"
    using j
    by (simp add: summarizeUrl_execute_def error_result_def content_type_error_def interpolate_def)
       (simp add: json_response_def)
  have "ok json_response"
    using second status_check_precedes_content_type_check
            [of "\<lambda>u. Resolved json_response" "lit ''https://example.com/data''"
                json_response "\<lambda>p. RejectedOther", THEN conjunct2]
    by blast
  then show ?thesis
    using h(1) first second by simp
qed

end
